theory Spec2Isabelle
  imports Main
begin

section \<open>next-tool: the action dispatcher of \<^verbatim>\<open>src/index.ts\<close>\<close>

text \<open>
  The class \<^verbatim>\<open>NextTool\<close> holds a configuration, a mapping from action names to
  asynchronous handler functions and a lazily created store. Its method
  \<^verbatim>\<open>rawHandler\<close> validates a request, initialises the store, runs
  \<^verbatim>\<open>before\<close>, the handler and \<^verbatim>\<open>after\<close>, and passes an envelope to
  \<^verbatim>\<open>send\<close>. This theory embeds that class and proves properties of it.
\<close>

subsection \<open>JavaScript values\<close>

text \<open>
  The values of type \<^verbatim>\<open>any\<close> that flow through the dispatcher: inputs, results, the
  store and whatever a hook or handler throws. Numbers are restricted to integers; an
  object is its list of own fields.
\<close>

datatype jsval =
    JUndefined
  | JNull
  | JBool bool
  | JNum int
  | JStr string
  | JObj "(string \<times> jsval) list"

text \<open>The truth value \<^verbatim>\<open>!v\<close> negates.\<close>

fun truthy :: "jsval \<Rightarrow> bool" where
  "truthy JUndefined = False"
| "truthy JNull = False"
| "truthy (JBool b) = b"
| "truthy (JNum n) = (n \<noteq> 0)"
| "truthy (JStr s) = (s \<noteq> [])"
| "truthy (JObj fs) = True"

text \<open>
  The property read \<^verbatim>\<open>v.message\<close>. On \<^verbatim>\<open>undefined\<close> and \<^verbatim>\<open>null\<close> the read raises a
  TypeError (\<open>None\<close>); on an object it yields the field, or \<^verbatim>\<open>undefined\<close> when the
  object has none; on the other primitives it yields \<^verbatim>\<open>undefined\<close>.
\<close>

fun get_message :: "jsval \<Rightarrow> jsval option" where
  "get_message JUndefined = None"
| "get_message JNull = None"
| "get_message (JObj fs) =
     Some (case map_of fs ''message'' of None \<Rightarrow> JUndefined | Some m \<Rightarrow> m)"
| "get_message (JBool b) = Some JUndefined"
| "get_message (JNum n) = Some JUndefined"
| "get_message (JStr s) = Some JUndefined"

text \<open>An awaited promise either fulfils with a value or rejects with a thrown value.\<close>

datatype 'a outcome = Fulfilled 'a | Rejected jsval

subsection \<open>The types of the module\<close>

text \<open>
  \<^verbatim>\<open>NextToolRequest\<close>: the body is optional; the code tests \<^verbatim>\<open>action\<close> before using it,
  so the field may be missing as well.
\<close>

record NextToolBody =
  action :: "string option"
  input :: jsval

record NextToolRequest =
  body :: "NextToolBody option"
  headers :: "(string \<times> string) list option"

type_synonym NextToolActionFn = "jsval \<Rightarrow> NextToolRequest \<Rightarrow> jsval outcome"

record NextToolActionConfig =
  after :: "NextToolActionFn option"
  before :: "NextToolActionFn option"
  disabled :: "bool option"

text \<open>
  A \<^verbatim>\<open>Record<string, T>\<close> is given by its own entries, a partial map. Handlers and
  action configurations are functions and objects, so every entry that is present is
  truthy. What the read \<^verbatim>\<open>m[k]\<close> yields is defined below (\<open>lookup_action\<close>,
  \<open>lookup_config\<close>): the records are plain objects, and a read also finds what they
  inherit.
\<close>

record NextToolConfig =
  actions :: "(string \<rightharpoonup> NextToolActionConfig) option"

text \<open>
  \<^verbatim>\<open>NextToolStorePromise\<close>: the store factory. It is a procedure, so its result may
  differ from call to call: \<open>f k\<close> is what the call made after \<open>k\<close> earlier calls
  settles to.
\<close>

type_synonym NextToolStorePromise = "nat \<Rightarrow> jsval outcome"

text \<open>The calls a dispatch makes to hooks and handlers, with the argument passed.\<close>

datatype call =
    BeforeCall jsval
  | ActionCall string jsval
  | AfterCall jsval

text \<open>
  The class. \<open>store\<close>, \<open>getStoreFn\<close>, \<open>config\<close> and \<open>actionMap\<close> are its fields.
  Two more fields record what has been invoked on this instance so far: the number of
  calls of the store factory, and the calls of hooks and handlers in order.
\<close>

record NextTool =
  store :: jsval
  getStoreFn :: "NextToolStorePromise option"
  config :: NextToolConfig
  actionMap :: "string \<rightharpoonup> NextToolActionFn"
  storeFnCalls :: nat
  calls :: "call list"

text \<open>
  What \<^verbatim>\<open>rawHandler\<close> hands to \<^verbatim>\<open>send\<close>: the envelope object, whose fields \<^verbatim>\<open>data\<close>
  and \<^verbatim>\<open>error\<close> are each present or not, and the status of the second argument
  (\<open>None\<close> when the call passes no second argument). An asynchronous method can also
  reject instead of returning.
\<close>

record envelope =
  data :: "jsval option"
  error :: "jsval option"

datatype failure = Thrown jsval | TypeError

datatype response = Send envelope "nat option" | Reject failure

subsection \<open>The constructor\<close>

datatype store_arg = NoStore | StoreValue jsval | StoreFn NextToolStorePromise

text \<open>
  Lines 51-66. A store argument other than \<^verbatim>\<open>undefined\<close> that is not a function is
  wrapped into a factory that resolves to it. The field \<^verbatim>\<open>store\<close> itself has no
  initialiser.
\<close>

definition constructor ::
  "NextToolConfig \<Rightarrow> store_arg \<Rightarrow> (string \<rightharpoonup> NextToolActionFn) option \<Rightarrow> NextTool" where
  "constructor cfg st am =
     \<lparr> store = JUndefined,
       getStoreFn =
         (case st of
            NoStore \<Rightarrow> None
          | StoreFn f \<Rightarrow> Some f
          | StoreValue v \<Rightarrow> if v \<noteq> JUndefined then Some (\<lambda>k. Fulfilled v) else None),
       config = cfg,
       actionMap = (case am of None \<Rightarrow> Map.empty | Some m \<Rightarrow> m),
       storeFnCalls = 0,
       calls = [] \<rparr>"

definition getConfig :: "NextTool \<Rightarrow> NextToolConfig" where
  "getConfig this = config this"

definition getStore :: "NextTool \<Rightarrow> jsval" where
  "getStore this = store this"

subsection \<open>\<^verbatim>\<open>init\<close>\<close>

text \<open>
  Lines 97-101. The method runs up to its \<^verbatim>\<open>await\<close> without interruption: it tests
  the store and the factory and calls the factory (\<open>init_begin\<close>). When the promise
  settles the method continues: it assigns the store, or rejects (\<open>init_end\<close>).
\<close>

definition init_begin :: "NextTool \<Rightarrow> jsval outcome option \<times> NextTool" where
  "init_begin this =
     (if \<not> truthy (store this) then
        (case getStoreFn this of
           None \<Rightarrow> (None, this)
         | Some f \<Rightarrow>
             (Some (f (storeFnCalls this)), this\<lparr>storeFnCalls := Suc (storeFnCalls this)\<rparr>))
      else (None, this))"

fun init_end :: "jsval outcome option \<Rightarrow> NextTool \<Rightarrow> unit outcome \<times> NextTool" where
  "init_end None this = (Fulfilled (), this)"
| "init_end (Some (Fulfilled v)) this = (Fulfilled (), this\<lparr>store := v\<rparr>)"
| "init_end (Some (Rejected e)) this = (Rejected e, this)"

definition init :: "NextTool \<Rightarrow> unit outcome \<times> NextTool" where
  "init this = (case init_begin this of (p, this') \<Rightarrow> init_end p this')"

subsection \<open>\<^verbatim>\<open>rawHandler\<close>\<close>

definition send_error :: "string \<Rightarrow> nat \<Rightarrow> response" where
  "send_error msg status = Send \<lparr> data = None, error = Some (JStr msg) \<rparr> (Some status)"

definition unknown_action :: "string \<Rightarrow> string" where
  "unknown_action a = ''Unknown action '' @ [CHR 0x22] @ a @ [CHR 0x22]"

definition not_enabled :: "string \<Rightarrow> string" where
  "not_enabled a = ''Action '' @ [CHR 0x22] @ a @ [CHR 0x22] @ '' not enabled''"

text \<open>
  Lines 146 and 158 read \<^verbatim>\<open>this.actionMap[action]\<close> and \<^verbatim>\<open>enabledActions[action]\<close>.
  Both objects are plain objects (the constructor's default handler mapping is the
  literal \<^verbatim>\<open>{}\<close>), so the read yields the object's own entry and, when there is none,
  the property the object inherits from \<^verbatim>\<open>Object.prototype\<close> under that key. These are
  the inherited keys.
\<close>

definition object_prototype_keys :: "string list" where
  "object_prototype_keys =
     [''constructor'', ''__defineGetter__'', ''__defineSetter__'', ''hasOwnProperty'',
      ''__lookupGetter__'', ''__lookupSetter__'', ''isPrototypeOf'',
      ''propertyIsEnumerable'', ''toString'', ''valueOf'', ''__proto__'',
      ''toLocaleString'']"

text \<open>
  A TypeError raised by the runtime: an object with a \<^verbatim>\<open>message\<close>. The wording of the
  message is the engine's.
\<close>

definition type_error :: "string \<Rightarrow> jsval" where
  "type_error msg = JObj [(''message'', JStr msg)]"

text \<open>
  What line 171, \<^verbatim>\<open>actionFn(before, request)\<close>, does when \<^verbatim>\<open>actionFn\<close> is the inherited
  property: the call passes no receiver. \<^verbatim>\<open>toString\<close> answers for the missing receiver;
  \<^verbatim>\<open>constructor\<close> is \<^verbatim>\<open>Object\<close>, which returns a new empty object for \<^verbatim>\<open>undefined\<close> and
  \<^verbatim>\<open>null\<close> and its argument otherwise (the wrapper object of a primitive is identified
  with the primitive); \<^verbatim>\<open>isPrototypeOf\<close> returns false for an argument that is not an
  object; \<^verbatim>\<open>__proto__\<close> is an object and not a function, so the call raises; every
  other one converts its receiver to an object, which raises.
\<close>

definition inherited_call :: "string \<Rightarrow> NextToolActionFn" where
  "inherited_call k =
     (\<lambda>x r.
        if k = ''toString'' then Fulfilled (JStr ''[object Undefined]'')
        else if k = ''constructor'' then
          Fulfilled (case x of JUndefined \<Rightarrow> JObj [] | JNull \<Rightarrow> JObj [] | JBool b \<Rightarrow> x
                     | JNum n \<Rightarrow> x | JStr t \<Rightarrow> x | JObj fs \<Rightarrow> x)
        else if k = ''isPrototypeOf'' then
          (case x of
             JObj fs \<Rightarrow> Rejected (type_error ''Cannot convert undefined or null to object'')
           | JUndefined \<Rightarrow> Fulfilled (JBool False)
           | JNull \<Rightarrow> Fulfilled (JBool False)
           | JBool b \<Rightarrow> Fulfilled (JBool False)
           | JNum n \<Rightarrow> Fulfilled (JBool False)
           | JStr t \<Rightarrow> Fulfilled (JBool False))
        else if k = ''__proto__'' then Rejected (type_error ''actionFn is not a function'')
        else Rejected (type_error ''Cannot convert undefined or null to object''))"

definition lookup_action ::
  "(string \<rightharpoonup> NextToolActionFn) \<Rightarrow> string \<Rightarrow> NextToolActionFn option" where
  "lookup_action m a =
     (case m a of
        Some f \<Rightarrow> Some f
      | None \<Rightarrow> if a \<in> set object_prototype_keys then Some (inherited_call a) else None)"

text \<open>
  As an action configuration an inherited property has none of the fields
  \<^verbatim>\<open>before\<close>, \<^verbatim>\<open>after\<close> and \<^verbatim>\<open>disabled\<close>.
\<close>

definition lookup_config ::
  "(string \<rightharpoonup> NextToolActionConfig) \<Rightarrow> string \<Rightarrow> NextToolActionConfig option" where
  "lookup_config m a =
     (case m a of
        Some c \<Rightarrow> Some c
      | None \<Rightarrow>
          if a \<in> set object_prototype_keys
          then Some \<lparr> after = None, before = None, disabled = None \<rparr> else None)"

text \<open>
  Lines 136-162: the checks before anything is invoked. The result is the response of
  the first check that fails, or the action's name, handler, configuration and input.
\<close>

definition validate ::
  "NextTool \<Rightarrow> NextToolRequest \<Rightarrow>
     response + (string \<times> NextToolActionFn \<times> NextToolActionConfig \<times> jsval)" where
  "validate this request =
     (case body request of
        None \<Rightarrow> Inl (send_error ''No body'' 400)
      | Some b \<Rightarrow>
          (case action b of
             None \<Rightarrow> Inl (send_error ''No action'' 400)
           | Some a \<Rightarrow>
               if a = [] then Inl (send_error ''No action'' 400)
               else
                 (case lookup_action (actionMap this) a of
                    None \<Rightarrow> Inl (send_error (unknown_action a) 400)
                  | Some actionFn \<Rightarrow>
                      (case actions (config this) of
                         None \<Rightarrow> Inl (send_error (not_enabled a) 400)
                       | Some enabledActions \<Rightarrow>
                           (case lookup_config enabledActions a of
                              None \<Rightarrow> Inl (send_error (not_enabled a) 400)
                            | Some actionConfig \<Rightarrow>
                                if disabled actionConfig = Some True
                                then Inl (send_error (not_enabled a) 400)
                                else Inr (a, actionFn, actionConfig, input b))))))"

text \<open>Lines 167-175: the body of the \<^verbatim>\<open>try\<close> block, with the calls it makes.\<close>

definition call_before ::
  "NextToolActionConfig \<Rightarrow> jsval \<Rightarrow> NextToolRequest \<Rightarrow> jsval outcome \<times> call list" where
  "call_before actionConfig inp request =
     (case before actionConfig of
        None \<Rightarrow> (Fulfilled inp, [])
      | Some b \<Rightarrow> (b inp request, [BeforeCall inp]))"

definition call_after ::
  "NextToolActionConfig \<Rightarrow> jsval \<Rightarrow> NextToolRequest \<Rightarrow> jsval outcome \<times> call list" where
  "call_after actionConfig res request =
     (case after actionConfig of
        None \<Rightarrow> (Fulfilled res, [])
      | Some a \<Rightarrow> (a res request, [AfterCall res]))"

definition try_block ::
  "string \<Rightarrow> NextToolActionFn \<Rightarrow> NextToolActionConfig \<Rightarrow> jsval \<Rightarrow> NextToolRequest \<Rightarrow>
     jsval outcome \<times> call list" where
  "try_block a actionFn actionConfig inp request =
     (case call_before actionConfig inp request of
        (Rejected e, cs) \<Rightarrow> (Rejected e, cs)
      | (Fulfilled bv, cs) \<Rightarrow>
          (case actionFn bv request of
             Rejected e \<Rightarrow> (Rejected e, cs @ [ActionCall a bv])
           | Fulfilled res \<Rightarrow>
               (case call_after actionConfig res request of
                  (r, cs') \<Rightarrow> (r, cs @ [ActionCall a bv] @ cs'))))"

text \<open>
  Lines 177-181: the success envelope is sent without a status; the \<^verbatim>\<open>catch\<close> block
  reads the \<^verbatim>\<open>message\<close> of whatever was thrown and sends it with status 500. The
  read itself raises when the thrown value is \<^verbatim>\<open>undefined\<close> or \<^verbatim>\<open>null\<close>, and then the
  method rejects.
\<close>

definition catch_block :: "jsval \<Rightarrow> response" where
  "catch_block e =
     (case get_message e of
        None \<Rightarrow> Reject TypeError
      | Some m \<Rightarrow> Send \<lparr> data = None, error = Some m \<rparr> (Some 500))"

definition run_action ::
  "string \<Rightarrow> NextToolActionFn \<Rightarrow> NextToolActionConfig \<Rightarrow> jsval \<Rightarrow> NextToolRequest \<Rightarrow>
     response \<times> call list" where
  "run_action a actionFn actionConfig inp request =
     (case try_block a actionFn actionConfig inp request of
        (Fulfilled d, cs) \<Rightarrow> (Send \<lparr> data = Some d, error = None \<rparr> None, cs)
      | (Rejected e, cs) \<Rightarrow> (catch_block e, cs))"

text \<open>
  Lines 133-182. \<^verbatim>\<open>await this.init()\<close> stands outside the \<^verbatim>\<open>try\<close> block: when the
  store factory rejects, the method rejects with the same value.
\<close>

definition rawHandler :: "NextTool \<Rightarrow> NextToolRequest \<Rightarrow> response \<times> NextTool" where
  "rawHandler this request =
     (case validate this request of
        Inl resp \<Rightarrow> (resp, this)
      | Inr (a, actionFn, actionConfig, inp) \<Rightarrow>
          (case init this of
             (Rejected e, this') \<Rightarrow> (Reject (Thrown e), this')
           | (Fulfilled u, this') \<Rightarrow>
               (case run_action a actionFn actionConfig inp request of
                  (resp, cs) \<Rightarrow> (resp, this'\<lparr>calls := calls this' @ cs\<rparr>))))"

text \<open>Dispatches made one after the other on the same instance.\<close>

fun dispatches :: "NextTool \<Rightarrow> NextToolRequest list \<Rightarrow> NextTool" where
  "dispatches this [] = this"
| "dispatches this (r # rs) = dispatches (snd (rawHandler this r)) rs"

text \<open>The action a request names; empty when the body or the field is missing.\<close>

definition requested_action :: "NextToolRequest \<Rightarrow> string" where
  "requested_action request =
     (case body request of
        None \<Rightarrow> []
      | Some b \<Rightarrow> (case action b of None \<Rightarrow> [] | Some a \<Rightarrow> a))"

subsection \<open>Dispatches that overlap\<close>

text \<open>
  \<^verbatim>\<open>rawHandler\<close> is asynchronous. A call runs without interruption up to the first
  \<^verbatim>\<open>await\<close> that has to wait: through the validation and through \<^verbatim>\<open>init\<close> up to the
  call of the store factory (\<open>rawHandler_start\<close>). The rest runs once the factory's
  promise has settled (\<open>rawHandler_resume\<close>). Another call of \<^verbatim>\<open>rawHandler\<close> can start
  in between.
\<close>

datatype suspended =
  Suspended "jsval outcome option" string NextToolActionFn NextToolActionConfig jsval
    NextToolRequest

definition rawHandler_start ::
  "NextTool \<Rightarrow> NextToolRequest \<Rightarrow> (response + suspended) \<times> NextTool" where
  "rawHandler_start this request =
     (case validate this request of
        Inl resp \<Rightarrow> (Inl resp, this)
      | Inr (a, actionFn, actionConfig, inp) \<Rightarrow>
          (case init_begin this of
             (p, this') \<Rightarrow> (Inr (Suspended p a actionFn actionConfig inp request), this')))"

fun rawHandler_resume :: "suspended \<Rightarrow> NextTool \<Rightarrow> response \<times> NextTool" where
  "rawHandler_resume (Suspended p a actionFn actionConfig inp request) this =
     (case init_end p this of
        (Rejected e, this') \<Rightarrow> (Reject (Thrown e), this')
      | (Fulfilled u, this') \<Rightarrow>
          (case run_action a actionFn actionConfig inp request of
             (resp, cs) \<Rightarrow> (resp, this'\<lparr>calls := calls this' @ cs\<rparr>)))"

text \<open>
  Several calls made before any of them resumes: every call starts, in order, and then
  every suspended call resumes, in order. Each call is listed with its response and
  with the store it finds when it resumes, which is the store its handler can read.
\<close>

fun start_all ::
  "NextTool \<Rightarrow> NextToolRequest list \<Rightarrow> (response + suspended) list \<times> NextTool" where
  "start_all this [] = ([], this)"
| "start_all this (r # rs) =
     (case rawHandler_start this r of
        (x, this') \<Rightarrow> (case start_all this' rs of (xs, this'') \<Rightarrow> (x # xs, this'')))"

fun resume_all ::
  "(response + suspended) list \<Rightarrow> NextTool \<Rightarrow> (response \<times> jsval) list \<times> NextTool" where
  "resume_all [] this = ([], this)"
| "resume_all (Inl resp # xs) this =
     (case resume_all xs this of (rs, t) \<Rightarrow> ((resp, store this) # rs, t))"
| "resume_all (Inr s # xs) this =
     (case rawHandler_resume s this of
        (resp, this') \<Rightarrow>
          (case resume_all xs this' of (rs, t) \<Rightarrow> ((resp, store this') # rs, t)))"

definition overlapping ::
  "NextTool \<Rightarrow> NextToolRequest list \<Rightarrow> (response \<times> jsval) list \<times> NextTool" where
  "overlapping this rs = (case start_all this rs of (xs, this') \<Rightarrow> resume_all xs this')"

subsection \<open>Example instances\<close>

definition wrap :: "string \<Rightarrow> NextToolActionFn" where
  "wrap k = (\<lambda>x r. Fulfilled (JObj [(k, x)]))"

definition throwing :: "jsval \<Rightarrow> NextToolActionFn" where
  "throwing e = (\<lambda>x r. Rejected e)"

definition echo :: NextToolActionFn where
  "echo = (\<lambda>x r. Fulfilled x)"

definition request_for :: "string \<Rightarrow> jsval \<Rightarrow> NextToolRequest" where
  "request_for a i = \<lparr> body = Some \<lparr> action = Some a, input = i \<rparr>, headers = None \<rparr>"

definition single_action_tool ::
  "string \<Rightarrow> NextToolActionFn \<Rightarrow> NextToolActionConfig \<Rightarrow> store_arg \<Rightarrow> NextTool" where
  "single_action_tool a fn cfg st =
     constructor \<lparr> actions = Some [a \<mapsto> cfg] \<rparr> st (Some [a \<mapsto> fn])"

definition plain :: NextToolActionConfig where
  "plain = \<lparr> after = None, before = None, disabled = None \<rparr>"

text \<open>A factory that resolves to \<^verbatim>\<open>undefined\<close> on its first call and to a string later.\<close>

definition late_store :: NextToolStorePromise where
  "late_store k = (if k = 0 then Fulfilled JUndefined else Fulfilled (JStr ''db''))"

text \<open>A factory whose result names the call that produced it.\<close>

definition numbered_store :: NextToolStorePromise where
  "numbered_store k = Fulfilled (JObj [(''id'', JNum (int k))])"

section \<open>Properties\<close>

subsection \<open>Auxiliary facts\<close>

text \<open>A dispatch that nothing interrupts is its start followed by its resumption.\<close>

lemma rawHandler_start_resume:
  "rawHandler this r =
     (case rawHandler_start this r of
        (Inl resp, t) \<Rightarrow> (resp, t)
      | (Inr s, t) \<Rightarrow> rawHandler_resume s t)"
  by (simp add: rawHandler_def rawHandler_start_def init_def split: sum.splits prod.splits)

text \<open>A read finds an own entry first; only the inherited keys are found without one.\<close>

lemma lookup_action_own:
  "m a = Some f \<Longrightarrow> lookup_action m a = Some f"
  by (simp add: lookup_action_def)

lemma lookup_config_own:
  "m a = Some c \<Longrightarrow> lookup_config m a = Some c"
  by (simp add: lookup_config_def)

lemma lookup_action_absent:
  "m a = None \<Longrightarrow> a \<notin> set object_prototype_keys \<Longrightarrow> lookup_action m a = None"
  by (simp add: lookup_action_def)

lemma lookup_config_absent:
  "m a = None \<Longrightarrow> a \<notin> set object_prototype_keys \<Longrightarrow> lookup_config m a = None"
  by (simp add: lookup_config_def)

lemmas validate_defs =
  validate_def lookup_action_def lookup_config_def object_prototype_keys_def

lemma validate_enabled:
  "body request = Some b \<Longrightarrow> action b = Some a \<Longrightarrow> a \<noteq> [] \<Longrightarrow> actionMap this a = Some h \<Longrightarrow>
   actions (config this) = Some m \<Longrightarrow> m a = Some cfg \<Longrightarrow> disabled cfg \<noteq> Some True \<Longrightarrow>
   validate this request = Inr (a, h, cfg, input b)"
  by (simp add: validate_def lookup_action_own lookup_config_own)

text \<open>Only the validation answers with status 400.\<close>

lemma validate_Inl:
  "validate this request = Inl resp \<Longrightarrow>
     resp = send_error ''No body'' 400 \<or> resp = send_error ''No action'' 400 \<or>
     resp = send_error (unknown_action (requested_action request)) 400 \<or>
     resp = send_error (not_enabled (requested_action request)) 400"
  by (auto simp add: validate_def requested_action_def split: option.splits if_splits)

lemma run_action_status:
  "run_action a h cfg i request = (Send env st, cs) \<Longrightarrow> st = None \<or> st = Some 500"
  by (auto simp add: run_action_def catch_block_def split: prod.splits outcome.splits option.splits)

lemma rawHandler_400:
  "rawHandler this request = (Send env (Some 400), this') \<Longrightarrow>
     validate this request = Inl (Send env (Some 400)) \<and> this' = this"
  by (auto simp add: rawHandler_def split: sum.splits prod.splits outcome.splits
      dest: run_action_status)

text \<open>\<open>init\<close> as one step, and what it leaves alone.\<close>

lemma init_eq:
  "init this =
     (if truthy (store this) then (Fulfilled (), this)
      else case getStoreFn this of
             None \<Rightarrow> (Fulfilled (), this)
           | Some f \<Rightarrow>
               (case f (storeFnCalls this) of
                  Fulfilled v \<Rightarrow>
                    (Fulfilled (), this\<lparr>storeFnCalls := Suc (storeFnCalls this), store := v\<rparr>)
                | Rejected e \<Rightarrow> (Rejected e, this\<lparr>storeFnCalls := Suc (storeFnCalls this)\<rparr>)))"
  by (simp add: init_def init_begin_def split: option.splits outcome.splits)

lemma init_frame:
  "init this = (r, this') \<Longrightarrow>
     getStoreFn this' = getStoreFn this \<and> config this' = config this \<and>
     actionMap this' = actionMap this \<and> calls this' = calls this"
  by (auto simp add: init_eq split: if_splits option.splits outcome.splits)

lemma init_truthy:
  "truthy (store this) \<Longrightarrow> init this = (Fulfilled (), this)"
  by (simp add: init_eq)

lemma rawHandler_frame:
  "getStoreFn (snd (rawHandler this request)) = getStoreFn this \<and>
   config (snd (rawHandler this request)) = config this \<and>
   actionMap (snd (rawHandler this request)) = actionMap this"
  by (auto simp add: rawHandler_def split: sum.splits prod.splits outcome.splits
      dest: init_frame)

text \<open>A truthy store is never replaced, and the factory is not called again.\<close>

lemma rawHandler_truthy_store:
  "truthy (store this) \<Longrightarrow>
     store (snd (rawHandler this request)) = store this \<and>
     storeFnCalls (snd (rawHandler this request)) = storeFnCalls this"
  by (auto simp add: rawHandler_def init_truthy split: sum.splits prod.splits outcome.splits)

lemma dispatches_truthy_store:
  "truthy (store this) \<Longrightarrow>
     store (dispatches this rs) = store this \<and>
     storeFnCalls (dispatches this rs) = storeFnCalls this"
proof (induction rs arbitrary: this)
  case Nil
  then show ?case by simp
next
  case (Cons r rs)
  have keep: "store (snd (rawHandler this r)) = store this"
    "storeFnCalls (snd (rawHandler this r)) = storeFnCalls this"
    using rawHandler_truthy_store [OF Cons.prems] by simp_all
  then have "truthy (store (snd (rawHandler this r)))" using Cons.prems by simp
  from Cons.IH [OF this] keep show ?case by simp
qed

text \<open>
  When the first call of the factory yields a truthy value, an instance is in one of two
  states: nothing called and no store, or one call made and that value stored.
\<close>

lemma rawHandler_first_store:
  assumes "getStoreFn this = Some f" and "f 0 = Fulfilled v" and "truthy v"
    and "(storeFnCalls this = 0 \<and> store this = JUndefined) \<or> (storeFnCalls this = 1 \<and> store this = v)"
  shows "(storeFnCalls (snd (rawHandler this r)) = 0 \<and> store (snd (rawHandler this r)) = JUndefined) \<or>
         (storeFnCalls (snd (rawHandler this r)) = 1 \<and> store (snd (rawHandler this r)) = v)"
  using assms
  by (auto simp add: rawHandler_def init_eq split: sum.splits prod.splits outcome.splits)

lemma dispatches_first_store:
  assumes "getStoreFn this = Some f" and "f 0 = Fulfilled v" and "truthy v"
    and "(storeFnCalls this = 0 \<and> store this = JUndefined) \<or> (storeFnCalls this = 1 \<and> store this = v)"
  shows "(storeFnCalls (dispatches this rs) = 0 \<and> store (dispatches this rs) = JUndefined) \<or>
         (storeFnCalls (dispatches this rs) = 1 \<and> store (dispatches this rs) = v)"
  using assms
proof (induction rs arbitrary: this)
  case Nil
  then show ?case by simp
next
  case (Cons r rs)
  have g: "getStoreFn (snd (rawHandler this r)) = Some f"
    using rawHandler_frame [of this r] Cons.prems(1) by simp
  have i: "(storeFnCalls (snd (rawHandler this r)) = 0 \<and> store (snd (rawHandler this r)) = JUndefined) \<or>
         (storeFnCalls (snd (rawHandler this r)) = 1 \<and> store (snd (rawHandler this r)) = v)"
    by (rule rawHandler_first_store [OF Cons.prems])
  show ?case using Cons.IH [OF g Cons.prems(2) Cons.prems(3) i] by simp
qed

text \<open>
  Every call that passes the validation while the store is still falsy calls the factory:
  \<open>n\<close> calls started on such an instance before any resumes make \<open>n\<close> factory calls.
\<close>

lemma validate_storeFnCalls:
  "validate (this\<lparr>storeFnCalls := n\<rparr>) r = validate this r"
  by (simp add: validate_def cong: option.case_cong if_cong)

lemma snd_start_all_Cons:
  "snd (start_all this (r # rs)) = snd (start_all (snd (rawHandler_start this r)) rs)"
  by (simp split: prod.splits)

lemma start_all_calls_factory:
  assumes "\<not> truthy (store this)" and "getStoreFn this = Some f"
    and "\<forall>r \<in> set rs. \<exists>x. validate this r = Inr x"
  shows "storeFnCalls (snd (start_all this rs)) = storeFnCalls this + length rs"
  using assms
proof (induction rs arbitrary: this)
  case Nil
  then show ?case by simp
next
  case (Cons r rs)
  from Cons.prems(3) obtain x where x: "validate this r = Inr x" by auto
  let ?t = "this\<lparr>storeFnCalls := Suc (storeFnCalls this)\<rparr>"
  have st: "snd (rawHandler_start this r) = ?t"
    using x Cons.prems(1,2)
    by (cases x) (simp add: rawHandler_start_def init_begin_def)
  have v: "\<forall>r \<in> set rs. \<exists>x. validate ?t r = Inr x"
    using Cons.prems(3) by (simp add: validate_storeFnCalls)
  have "storeFnCalls (snd (start_all ?t rs)) = storeFnCalls ?t + length rs"
    by (rule Cons.IH) (use Cons.prems v in simp_all)
  then show ?case
    by (simp only: snd_start_all_Cons st) simp
qed

subsection \<open>The claims\<close>

text \<open>
  C1. For a dispatch of an enabled action whose store initialisation does not reject:
  with both hooks configured, handler \<open>h\<close>, input \<open>i\<close>, \<open>before = b\<close> and
  \<open>after = a\<close>, each returning, the envelope is the success envelope with data
  \<open>a (h (b i))\<close>, and the dispatch adds exactly the calls of \<open>b\<close>, \<open>h\<close> and \<open>a\<close>, in
  that order, each once. When \<open>before\<close> is absent the handler is called with the
  original input. When \<open>after\<close> is absent the data is the handler's result.
\<close>

theorem C1_before_action_after:
  assumes "body request = Some b" and "action b = Some a" and "a \<noteq> []"
    and "actionMap this a = Some h"
    and "actions (config this) = Some m" and "m a = Some cfg" and "disabled cfg \<noteq> Some True"
    and "fst (init this) = Fulfilled ()"
  shows
    "(before cfg = Some bf \<and> after cfg = Some af \<and>
      bf (input b) request = Fulfilled x \<and> h x request = Fulfilled y \<and>
      af y request = Fulfilled z \<longrightarrow>
        fst (rawHandler this request) = Send \<lparr> data = Some z, error = None \<rparr> None \<and>
        calls (snd (rawHandler this request)) =
          calls this @ [BeforeCall (input b), ActionCall a x, AfterCall y]) \<and>
     (before cfg = None \<longrightarrow>
        (\<exists>cs. calls (snd (rawHandler this request)) = calls this @ ActionCall a (input b) # cs)) \<and>
     (after cfg = None \<and>
      (before cfg = None \<and> x' = input b \<or>
       before cfg = Some bf' \<and> bf' (input b) request = Fulfilled x') \<and>
      h x' request = Fulfilled y' \<longrightarrow>
        fst (rawHandler this request) = Send \<lparr> data = Some y', error = None \<rparr> None)"
proof -
  have v: "validate this request = Inr (a, h, cfg, input b)"
    using assms(1-7) by (rule validate_enabled)
  obtain this' where i: "init this = (Fulfilled (), this')"
    using assms(8) by (cases "init this") auto
  have c: "calls this' = calls this"
    using init_frame [OF i] by simp
  show ?thesis
    using c
    by (auto simp add: rawHandler_def v i run_action_def try_block_def call_before_def
        call_after_def split: outcome.splits option.splits prod.splits)
qed

theorem C1_before_action_after_witness:
  "fst (rawHandler
         (single_action_tool ''greet'' (wrap ''h'')
            \<lparr> after = Some (wrap ''a''), before = Some (wrap ''b''), disabled = None \<rparr> NoStore)
         (request_for ''greet'' (JNum 42))) =
     Send \<lparr> data = Some (JObj [(''a'', JObj [(''h'', JObj [(''b'', JNum 42)])])]),
            error = None \<rparr> None \<and>
   calls (snd (rawHandler
         (single_action_tool ''greet'' (wrap ''h'')
            \<lparr> after = Some (wrap ''a''), before = Some (wrap ''b''), disabled = None \<rparr> NoStore)
         (request_for ''greet'' (JNum 42)))) =
     [BeforeCall (JNum 42), ActionCall ''greet'' (JObj [(''b'', JNum 42)]),
      AfterCall (JObj [(''h'', JObj [(''b'', JNum 42)])])] \<and>
   (\<exists>cs. calls (snd (rawHandler (single_action_tool ''greet'' (wrap ''h'') plain NoStore)
                       (request_for ''greet'' (JNum 42)))) =
          ActionCall ''greet'' (JNum 42) # cs) \<and>
   fst (rawHandler (single_action_tool ''greet'' (wrap ''h'') plain NoStore)
         (request_for ''greet'' (JNum 42))) =
     Send \<lparr> data = Some (JObj [(''h'', JNum 42)]), error = None \<rparr> None"
proof -
  let ?cfg = "\<lparr> after = Some (wrap ''a''), before = Some (wrap ''b''), disabled = None \<rparr>"
  let ?b = "\<lparr> action = Some ''greet'', input = JNum 42 \<rparr>"
  note both =
    C1_before_action_after [where request = "request_for ''greet'' (JNum 42)" and b = ?b
      and a = "''greet''" and this = "single_action_tool ''greet'' (wrap ''h'') ?cfg NoStore"
      and h = "wrap ''h''" and m = "[''greet'' \<mapsto> ?cfg]" and cfg = ?cfg
      and bf = "wrap ''b''" and af = "wrap ''a''" and x = "JObj [(''b'', JNum 42)]"
      and y = "JObj [(''h'', JObj [(''b'', JNum 42)])]"
      and z = "JObj [(''a'', JObj [(''h'', JObj [(''b'', JNum 42)])])]"]
  note none =
    C1_before_action_after [where request = "request_for ''greet'' (JNum 42)" and b = ?b
      and a = "''greet''" and this = "single_action_tool ''greet'' (wrap ''h'') plain NoStore"
      and h = "wrap ''h''" and m = "[''greet'' \<mapsto> plain]" and cfg = plain
      and x' = "JNum 42" and y' = "JObj [(''h'', JNum 42)]"]
  have 1: "fst (rawHandler (single_action_tool ''greet'' (wrap ''h'') ?cfg NoStore)
              (request_for ''greet'' (JNum 42))) =
            Send \<lparr> data = Some (JObj [(''a'', JObj [(''h'', JObj [(''b'', JNum 42)])])]),
                   error = None \<rparr> None \<and>
          calls (snd (rawHandler (single_action_tool ''greet'' (wrap ''h'') ?cfg NoStore)
              (request_for ''greet'' (JNum 42)))) =
            [BeforeCall (JNum 42), ActionCall ''greet'' (JObj [(''b'', JNum 42)]),
             AfterCall (JObj [(''h'', JObj [(''b'', JNum 42)])])]"
    using both
    by (simp add: single_action_tool_def constructor_def request_for_def wrap_def init_eq)
  have 2: "(\<exists>cs. calls (snd (rawHandler (single_action_tool ''greet'' (wrap ''h'') plain NoStore)
                       (request_for ''greet'' (JNum 42)))) =
          ActionCall ''greet'' (JNum 42) # cs) \<and>
     fst (rawHandler (single_action_tool ''greet'' (wrap ''h'') plain NoStore)
         (request_for ''greet'' (JNum 42))) =
     Send \<lparr> data = Some (JObj [(''h'', JNum 42)]), error = None \<rparr> None"
    using none
    by (simp add: single_action_tool_def constructor_def request_for_def wrap_def init_eq
        plain_def)
  from 1 2 show ?thesis by simp
qed

text \<open>
  C2 as stated lists the second check as "no action field" and says that the first
  condition met determines the error. For a request whose action field is present and
  empty, with a handler registered and enabled under the empty name, none of the five
  conditions as listed is met, and the code still answers \<^verbatim>\<open>{ error: "No action" }\<close>
  with status 400: its test is \<^verbatim>\<open>!action\<close>.
\<close>

theorem C2_validation_order_counterexample:
  "body (request_for [] (JNum 7)) = Some \<lparr> action = Some [], input = JNum 7 \<rparr> \<and>
   actionMap (single_action_tool [] (wrap ''h'') plain NoStore) [] = Some (wrap ''h'') \<and>
   actions (config (single_action_tool [] (wrap ''h'') plain NoStore)) = Some [[] \<mapsto> plain] \<and>
   disabled plain = None \<and>
   fst (rawHandler (single_action_tool [] (wrap ''h'') plain NoStore) (request_for [] (JNum 7))) =
     Send \<lparr> data = None, error = Some (JStr ''No action'') \<rparr> (Some 400)"
  by (simp add: rawHandler_def validate_def request_for_def single_action_tool_def
      constructor_def plain_def send_error_def)

text \<open>
  C2, amended. The five validation checks are: no body; action field missing or empty;
  no registered handler; no action configuration mapping; entry missing or disabled.
  They are evaluated in that order, and the first one met determines the single response,
  the error of that check with status 400, where a missing handler and a missing entry
  are said of a name that is not a key inherited from \<^verbatim>\<open>Object.prototype\<close>. Each line
  below assumes that the checks before it are not met and leaves the checks after it
  open. The instance is returned as it was, so no handler, hook or store factory has
  been invoked. When no check is met the response is not a status-400 envelope.
\<close>

theorem C2_validation_order:
  "(body request = None \<longrightarrow>
      rawHandler this request =
        (Send \<lparr> data = None, error = Some (JStr ''No body'') \<rparr> (Some 400), this)) \<and>
   (body request = Some b \<and> (action b = None \<or> action b = Some []) \<longrightarrow>
      rawHandler this request =
        (Send \<lparr> data = None, error = Some (JStr ''No action'') \<rparr> (Some 400), this)) \<and>
   (body request = Some b \<and> action b = Some a \<and> a \<noteq> [] \<and>
    actionMap this a = None \<and> a \<notin> set object_prototype_keys \<longrightarrow>
      rawHandler this request =
        (Send \<lparr> data = None,
                error = Some (JStr (''Unknown action '' @ [CHR 0x22] @ a @ [CHR 0x22])) \<rparr>
           (Some 400), this)) \<and>
   (body request = Some b \<and> action b = Some a \<and> a \<noteq> [] \<and>
    actionMap this a = Some h \<and> actions (config this) = None \<longrightarrow>
      rawHandler this request =
        (Send \<lparr> data = None,
                error = Some (JStr (''Action '' @ [CHR 0x22] @ a @ [CHR 0x22] @
                                    '' not enabled'')) \<rparr>
           (Some 400), this)) \<and>
   (body request = Some b \<and> action b = Some a \<and> a \<noteq> [] \<and>
    actionMap this a = Some h \<and> actions (config this) = Some m \<and>
    (m a = None \<and> a \<notin> set object_prototype_keys \<or>
     (\<exists>c. m a = Some c \<and> disabled c = Some True)) \<longrightarrow>
      rawHandler this request =
        (Send \<lparr> data = None,
                error = Some (JStr (''Action '' @ [CHR 0x22] @ a @ [CHR 0x22] @
                                    '' not enabled'')) \<rparr>
           (Some 400), this)) \<and>
   (body request = Some b \<and> action b = Some a \<and> a \<noteq> [] \<and>
    actionMap this a = Some h \<and> actions (config this) = Some m \<and>
    m a = Some c' \<and> disabled c' \<noteq> Some True \<longrightarrow>
      fst (rawHandler this request) \<noteq> Send env (Some 400))"
proof (intro conjI impI)
  assume "body request = None"
  then show "rawHandler this request =
      (Send \<lparr> data = None, error = Some (JStr ''No body'') \<rparr> (Some 400), this)"
    by (simp add: rawHandler_def validate_def send_error_def)
next
  assume "body request = Some b \<and> (action b = None \<or> action b = Some [])"
  then show "rawHandler this request =
      (Send \<lparr> data = None, error = Some (JStr ''No action'') \<rparr> (Some 400), this)"
    by (auto simp add: rawHandler_def validate_def send_error_def)
next
  assume "body request = Some b \<and> action b = Some a \<and> a \<noteq> [] \<and>
    actionMap this a = None \<and> a \<notin> set object_prototype_keys"
  then show "rawHandler this request =
        (Send \<lparr> data = None,
                error = Some (JStr (''Unknown action '' @ [CHR 0x22] @ a @ [CHR 0x22])) \<rparr>
           (Some 400), this)"
    by (simp add: rawHandler_def validate_def lookup_action_absent send_error_def
        unknown_action_def)
next
  assume "body request = Some b \<and> action b = Some a \<and> a \<noteq> [] \<and>
    actionMap this a = Some h \<and> actions (config this) = None"
  then show "rawHandler this request =
        (Send \<lparr> data = None,
                error = Some (JStr (''Action '' @ [CHR 0x22] @ a @ [CHR 0x22] @
                                    '' not enabled'')) \<rparr>
           (Some 400), this)"
    by (simp add: rawHandler_def validate_def lookup_action_own send_error_def not_enabled_def)
next
  assume "body request = Some b \<and> action b = Some a \<and> a \<noteq> [] \<and>
    actionMap this a = Some h \<and> actions (config this) = Some m \<and>
    (m a = None \<and> a \<notin> set object_prototype_keys \<or>
     (\<exists>c. m a = Some c \<and> disabled c = Some True))"
  then show "rawHandler this request =
        (Send \<lparr> data = None,
                error = Some (JStr (''Action '' @ [CHR 0x22] @ a @ [CHR 0x22] @
                                    '' not enabled'')) \<rparr>
           (Some 400), this)"
    by (auto simp add: rawHandler_def validate_def lookup_action_own lookup_config_own
        lookup_config_absent send_error_def not_enabled_def)
next
  assume "body request = Some b \<and> action b = Some a \<and> a \<noteq> [] \<and>
    actionMap this a = Some h \<and> actions (config this) = Some m \<and>
    m a = Some c' \<and> disabled c' \<noteq> Some True"
  then have "validate this request = Inr (a, h, c', input b)"
    by (simp add: validate_enabled)
  then show "fst (rawHandler this request) \<noteq> Send env (Some 400)"
    using rawHandler_400 [of this request env "snd (rawHandler this request)"]
    by (cases "rawHandler this request") auto
qed

theorem C2_validation_order_witness:
  "rawHandler (single_action_tool ''echo'' echo plain (StoreFn numbered_store))
      \<lparr> body = None, headers = None \<rparr> =
     (Send \<lparr> data = None, error = Some (JStr ''No body'') \<rparr> (Some 400),
      single_action_tool ''echo'' echo plain (StoreFn numbered_store)) \<and>
   rawHandler (constructor \<lparr> actions = None \<rparr> NoStore None)
      \<lparr> body = Some \<lparr> action = None, input = JNull \<rparr>, headers = None \<rparr> =
     (Send \<lparr> data = None, error = Some (JStr ''No action'') \<rparr> (Some 400),
      constructor \<lparr> actions = None \<rparr> NoStore None) \<and>
   rawHandler (constructor \<lparr> actions = None \<rparr> NoStore None) (request_for ''x'' JNull) =
     (Send \<lparr> data = None, error = Some (JStr (''Unknown action '' @ [CHR 0x22] @ ''x'' @ [CHR 0x22])) \<rparr> (Some 400),
      constructor \<lparr> actions = None \<rparr> NoStore None) \<and>
   rawHandler (constructor \<lparr> actions = None \<rparr> NoStore (Some [''greet'' \<mapsto> echo]))
      (request_for ''greet'' (JStr ''x'')) =
     (Send \<lparr> data = None, error = Some (JStr (''Action '' @ [CHR 0x22] @ ''greet'' @ [CHR 0x22] @ '' not enabled'')) \<rparr> (Some 400),
      constructor \<lparr> actions = None \<rparr> NoStore (Some [''greet'' \<mapsto> echo])) \<and>
   rawHandler (constructor \<lparr> actions = Some Map.empty \<rparr> NoStore (Some [''greet'' \<mapsto> echo]))
      (request_for ''greet'' (JStr ''x'')) =
     (Send \<lparr> data = None, error = Some (JStr (''Action '' @ [CHR 0x22] @ ''greet'' @ [CHR 0x22] @ '' not enabled'')) \<rparr> (Some 400),
      constructor \<lparr> actions = Some Map.empty \<rparr> NoStore (Some [''greet'' \<mapsto> echo])) \<and>
   rawHandler
      (single_action_tool ''greet'' echo
         \<lparr> after = None, before = None, disabled = Some True \<rparr> NoStore)
      (request_for ''greet'' (JStr ''x'')) =
     (Send \<lparr> data = None, error = Some (JStr (''Action '' @ [CHR 0x22] @ ''greet'' @ [CHR 0x22] @ '' not enabled'')) \<rparr> (Some 400),
      single_action_tool ''greet'' echo
         \<lparr> after = None, before = None, disabled = Some True \<rparr> NoStore) \<and>
   fst (rawHandler (single_action_tool ''echo'' echo plain NoStore) (request_for ''echo'' JNull))
     \<noteq> Send \<lparr> data = None, error = Some (JStr (''Action '' @ [CHR 0x22] @ ''echo'' @ [CHR 0x22] @ '' not enabled'')) \<rparr> (Some 400)"
proof -
  let ?g = "\<lparr> action = Some ''greet'', input = JStr ''x'' \<rparr>"
  let ?off = "\<lparr> after = None, before = None, disabled = Some True \<rparr>"
  have 1: "rawHandler (single_action_tool ''echo'' echo plain (StoreFn numbered_store))
      \<lparr> body = None, headers = None \<rparr> =
     (Send \<lparr> data = None, error = Some (JStr ''No body'') \<rparr> (Some 400),
      single_action_tool ''echo'' echo plain (StoreFn numbered_store))"
    using C2_validation_order [where request = "\<lparr> body = None, headers = None \<rparr>"
        and this = "single_action_tool ''echo'' echo plain (StoreFn numbered_store)"]
    by simp
  have 2: "rawHandler (constructor \<lparr> actions = None \<rparr> NoStore None)
      \<lparr> body = Some \<lparr> action = None, input = JNull \<rparr>, headers = None \<rparr> =
     (Send \<lparr> data = None, error = Some (JStr ''No action'') \<rparr> (Some 400),
      constructor \<lparr> actions = None \<rparr> NoStore None)"
    using C2_validation_order [where this = "constructor \<lparr> actions = None \<rparr> NoStore None"
        and request = "\<lparr> body = Some \<lparr> action = None, input = JNull \<rparr>, headers = None \<rparr>"
        and b = "\<lparr> action = None, input = JNull \<rparr>"]
    by simp
  have 3: "rawHandler (constructor \<lparr> actions = None \<rparr> NoStore None) (request_for ''x'' JNull) =
     (Send \<lparr> data = None, error = Some (JStr (''Unknown action '' @ [CHR 0x22] @ ''x'' @ [CHR 0x22])) \<rparr> (Some 400),
      constructor \<lparr> actions = None \<rparr> NoStore None)"
    using C2_validation_order [where this = "constructor \<lparr> actions = None \<rparr> NoStore None"
        and request = "request_for ''x'' JNull"
        and b = "\<lparr> action = Some ''x'', input = JNull \<rparr>" and a = "''x''"]
    by (simp add: request_for_def constructor_def object_prototype_keys_def)
  have 4: "rawHandler (constructor \<lparr> actions = None \<rparr> NoStore (Some [''greet'' \<mapsto> echo]))
      (request_for ''greet'' (JStr ''x'')) =
     (Send \<lparr> data = None, error = Some (JStr (''Action '' @ [CHR 0x22] @ ''greet'' @ [CHR 0x22] @ '' not enabled'')) \<rparr> (Some 400),
      constructor \<lparr> actions = None \<rparr> NoStore (Some [''greet'' \<mapsto> echo]))"
    using C2_validation_order [where request = "request_for ''greet'' (JStr ''x'')" and b = ?g
        and a = "''greet''" and h = echo
        and this = "constructor \<lparr> actions = None \<rparr> NoStore (Some [''greet'' \<mapsto> echo])"]
    by (simp add: request_for_def constructor_def)
  have 5: "rawHandler (constructor \<lparr> actions = Some Map.empty \<rparr> NoStore (Some [''greet'' \<mapsto> echo]))
      (request_for ''greet'' (JStr ''x'')) =
     (Send \<lparr> data = None, error = Some (JStr (''Action '' @ [CHR 0x22] @ ''greet'' @ [CHR 0x22] @ '' not enabled'')) \<rparr> (Some 400),
      constructor \<lparr> actions = Some Map.empty \<rparr> NoStore (Some [''greet'' \<mapsto> echo]))"
    using C2_validation_order [where request = "request_for ''greet'' (JStr ''x'')" and b = ?g
        and a = "''greet''" and h = echo and m = Map.empty
        and this = "constructor \<lparr> actions = Some Map.empty \<rparr> NoStore (Some [''greet'' \<mapsto> echo])"]
    by (simp add: request_for_def constructor_def object_prototype_keys_def)
  have 6: "rawHandler (single_action_tool ''greet'' echo ?off NoStore)
      (request_for ''greet'' (JStr ''x'')) =
     (Send \<lparr> data = None, error = Some (JStr (''Action '' @ [CHR 0x22] @ ''greet'' @ [CHR 0x22] @ '' not enabled'')) \<rparr> (Some 400),
      single_action_tool ''greet'' echo ?off NoStore)"
    using C2_validation_order [where request = "request_for ''greet'' (JStr ''x'')" and b = ?g
        and a = "''greet''" and h = echo and m = "[''greet'' \<mapsto> ?off]"
        and this = "single_action_tool ''greet'' echo ?off NoStore"]
    by (simp add: request_for_def constructor_def single_action_tool_def
        object_prototype_keys_def)
  have 7: "fst (rawHandler (single_action_tool ''echo'' echo plain NoStore)
              (request_for ''echo'' JNull))
     \<noteq> Send \<lparr> data = None, error = Some (JStr (''Action '' @ [CHR 0x22] @ ''echo'' @ [CHR 0x22] @ '' not enabled'')) \<rparr> (Some 400)"
    using C2_validation_order [where request = "request_for ''echo'' JNull"
        and b = "\<lparr> action = Some ''echo'', input = JNull \<rparr>" and a = "''echo''"
        and h = echo and m = "[''echo'' \<mapsto> plain]" and c' = plain
        and this = "single_action_tool ''echo'' echo plain NoStore"
        and env = "\<lparr> data = None, error = Some (JStr (''Action '' @ [CHR 0x22] @ ''echo'' @ [CHR 0x22] @ '' not enabled'')) \<rparr>"]
    by (simp add: request_for_def constructor_def single_action_tool_def plain_def)
  from 1 2 3 4 5 6 7 show ?thesis by simp
qed

text \<open>
  C3 says that a request naming an action with no entry in the handler mapping is
  answered with \<^verbatim>\<open>Unknown action\<close> and status 400. The code does not do so for a name
  that the handler object inherits: with an empty handler mapping, the request for
  \<^verbatim>\<open>toString\<close> passes the handler check. With an empty actions mapping it also passes
  the enablement check, the inherited function is called and a success is sent; with no
  actions mapping it is answered with \<^verbatim>\<open>not enabled\<close>.
\<close>

theorem C3_inherited_key_not_unknown:
  "actionMap (constructor \<lparr> actions = Some Map.empty \<rparr> NoStore None) ''toString'' = None \<and>
   fst (rawHandler (constructor \<lparr> actions = Some Map.empty \<rparr> NoStore None)
          (request_for ''toString'' (JNum 1))) =
     Send \<lparr> data = Some (JStr ''[object Undefined]''), error = None \<rparr> None \<and>
   fst (rawHandler (constructor \<lparr> actions = None \<rparr> NoStore None)
          (request_for ''toString'' (JNum 1))) =
     Send \<lparr> data = None, error = Some (JStr (''Action '' @ [CHR 0x22] @ ''toString'' @ [CHR 0x22] @ '' not enabled'')) \<rparr> (Some 400)"
  by (simp add: rawHandler_def validate_defs init_eq run_action_def try_block_def
      call_before_def call_after_def inherited_call_def request_for_def constructor_def
      send_error_def not_enabled_def)

text \<open>
  C4 says that a request naming an action with a registered handler and no
  configuration entry is answered with \<^verbatim>\<open>not enabled\<close> and that the handler is not
  invoked. The code does not do so for a name that the actions mapping inherits: with a
  handler registered as \<^verbatim>\<open>valueOf\<close> and an empty actions mapping, the request passes the
  enablement check, the handler is invoked and a success is sent.
\<close>

theorem C4_inherited_entry_enables:
  "fst (rawHandler
          (constructor \<lparr> actions = Some Map.empty \<rparr> NoStore (Some [''valueOf'' \<mapsto> wrap ''h'']))
          (request_for ''valueOf'' (JNum 1))) =
     Send \<lparr> data = Some (JObj [(''h'', JNum 1)]), error = None \<rparr> None \<and>
   calls (snd (rawHandler
          (constructor \<lparr> actions = Some Map.empty \<rparr> NoStore (Some [''valueOf'' \<mapsto> wrap ''h'']))
          (request_for ''valueOf'' (JNum 1)))) = [ActionCall ''valueOf'' (JNum 1)]"
  by (simp add: rawHandler_def validate_defs init_eq run_action_def try_block_def
      call_before_def call_after_def request_for_def constructor_def wrap_def)

text \<open>
  C9. A request whose body is present and whose action is the empty string is answered
  with \<^verbatim>\<open>{ error: "No action" }\<close> and status 400, whatever the handler mapping holds
  under the empty name.
\<close>

theorem C9_empty_action:
  assumes "body request = Some b" and "action b = Some []"
  shows "rawHandler this request =
           (Send \<lparr> data = None, error = Some (JStr ''No action'') \<rparr> (Some 400), this)"
  using assms by (simp add: rawHandler_def validate_defs send_error_def)

theorem C9_empty_action_witness:
  "actionMap (single_action_tool [] echo plain NoStore) [] = Some echo \<and>
   rawHandler (single_action_tool [] echo plain NoStore) (request_for [] (JNum 7)) =
     (Send \<lparr> data = None, error = Some (JStr ''No action'') \<rparr> (Some 400),
      single_action_tool [] echo plain NoStore)"
  using C9_empty_action [where request = "request_for [] (JNum 7)"
      and b = "\<lparr> action = Some [], input = JNum 7 \<rparr>"
      and this = "single_action_tool [] echo plain NoStore"]
  by (simp add: request_for_def single_action_tool_def constructor_def)

text \<open>
  C10. A dispatch that ends in one of the four client-input errors (no body, no action,
  unknown action, action not enabled) returns the instance as it was: the store is
  unchanged and the store factory has not been called.
\<close>

theorem C10_client_errors_leave_store:
  assumes "rawHandler this request = (resp, this')"
    and "resp = send_error ''No body'' 400 \<or> resp = send_error ''No action'' 400 \<or>
         resp = send_error (unknown_action a) 400 \<or> resp = send_error (not_enabled a) 400"
  shows "this' = this \<and> store this' = store this \<and> storeFnCalls this' = storeFnCalls this"
proof -
  obtain env where "resp = Send env (Some 400)"
    using assms(2) by (auto simp add: send_error_def)
  with assms(1) have "this' = this"
    using rawHandler_400 by blast
  then show ?thesis by simp
qed

theorem C10_client_errors_leave_store_witness:
  "snd (rawHandler (single_action_tool ''echo'' echo plain (StoreFn numbered_store))
          (request_for ''missing'' JNull)) =
     single_action_tool ''echo'' echo plain (StoreFn numbered_store) \<and>
   store (snd (rawHandler (single_action_tool ''echo'' echo plain (StoreFn numbered_store))
          (request_for ''missing'' JNull))) = JUndefined \<and>
   storeFnCalls (snd (rawHandler (single_action_tool ''echo'' echo plain (StoreFn numbered_store))
          (request_for ''missing'' JNull))) = 0"
proof -
  let ?t = "single_action_tool ''echo'' echo plain (StoreFn numbered_store)"
  let ?r = "request_for ''missing'' JNull"
  have eq: "rawHandler ?t ?r = (fst (rawHandler ?t ?r), snd (rawHandler ?t ?r))"
    by simp
  have f: "fst (rawHandler ?t ?r) = send_error (unknown_action ''missing'') 400"
    by (simp add: rawHandler_def validate_defs request_for_def single_action_tool_def
        constructor_def)
  have "snd (rawHandler ?t ?r) = ?t \<and> store (snd (rawHandler ?t ?r)) = store ?t \<and>
        storeFnCalls (snd (rawHandler ?t ?r)) = storeFnCalls ?t"
    by (rule C10_client_errors_leave_store [OF eq, where a = "''missing''"]) (simp add: f)
  then show ?thesis
    by (simp add: single_action_tool_def constructor_def)
qed

text \<open>
  C5 as stated says that every throw of \<open>before\<close>, the handler or \<open>after\<close> ends in an
  envelope with status 500. A handler that throws \<^verbatim>\<open>null\<close> does not: the \<^verbatim>\<open>catch\<close> block
  reads \<^verbatim>\<open>error.message\<close>, the read raises, and the dispatch rejects.
\<close>

theorem C5_throw_counterexample:
  "fst (rawHandler (single_action_tool ''echo'' (throwing JNull) plain NoStore)
         (request_for ''echo'' (JNum 1))) = Reject TypeError"
  by (simp add: rawHandler_def validate_defs init_eq run_action_def try_block_def call_before_def
      catch_block_def request_for_def single_action_tool_def constructor_def plain_def
      throwing_def)

text \<open>
  C5, amended. For a dispatch of an enabled action whose store initialisation does not
  reject: when \<open>before\<close>, the handler or \<open>after\<close> throws a value other than
  \<^verbatim>\<open>undefined\<close> and \<^verbatim>\<open>null\<close>, the response is the envelope whose only field \<^verbatim>\<open>error\<close>
  holds the \<^verbatim>\<open>message\<close> field of the thrown value, with status 500. Nothing runs after
  the throw: when \<open>before\<close> throws the handler is not called, and when the handler
  throws \<open>after\<close> is not called; no data is returned.
\<close>

theorem C5_throw_caught:
  assumes "body request = Some b" and "action b = Some a" and "a \<noteq> []"
    and "actionMap this a = Some h"
    and "actions (config this) = Some m" and "m a = Some cfg" and "disabled cfg \<noteq> Some True"
    and "fst (init this) = Fulfilled ()"
    and "e \<noteq> JUndefined" and "e \<noteq> JNull"
  shows
    "(before cfg = Some bf \<and> bf (input b) request = Rejected e \<longrightarrow>
        fst (rawHandler this request) =
          Send \<lparr> data = None, error = get_message e \<rparr> (Some 500) \<and>
        calls (snd (rawHandler this request)) = calls this @ [BeforeCall (input b)]) \<and>
     (call_before cfg (input b) request = (Fulfilled x, cs) \<and> h x request = Rejected e \<longrightarrow>
        fst (rawHandler this request) =
          Send \<lparr> data = None, error = get_message e \<rparr> (Some 500) \<and>
        calls (snd (rawHandler this request)) = calls this @ cs @ [ActionCall a x] \<and>
        (\<forall>y. AfterCall y \<notin> set (cs @ [ActionCall a x]))) \<and>
     (call_before cfg (input b) request = (Fulfilled x, cs) \<and> h x request = Fulfilled y \<and>
      after cfg = Some af \<and> af y request = Rejected e \<longrightarrow>
        fst (rawHandler this request) =
          Send \<lparr> data = None, error = get_message e \<rparr> (Some 500) \<and>
        calls (snd (rawHandler this request)) =
          calls this @ cs @ [ActionCall a x, AfterCall y])"
proof -
  have v: "validate this request = Inr (a, h, cfg, input b)"
    using assms(1-7) by (rule validate_enabled)
  obtain this' where i: "init this = (Fulfilled (), this')"
    using assms(8) by (cases "init this") auto
  have c: "calls this' = calls this"
    using init_frame [OF i] by simp
  obtain msg where g: "get_message e = Some msg"
    using assms(9,10) by (cases e) auto
  show ?thesis
    using c g
    by (auto simp add: rawHandler_def v i run_action_def try_block_def call_before_def
        call_after_def catch_block_def split: option.splits)
qed

theorem C5_throw_caught_witness:
  "fst (rawHandler
         (single_action_tool ''run'' echo
            \<lparr> after = None,
              before = Some (throwing (JObj [(''message'', JStr ''bad input'')])),
              disabled = None \<rparr> NoStore)
         (request_for ''run'' (JNum 1))) =
     Send \<lparr> data = None, error = Some (JStr ''bad input'') \<rparr> (Some 500) \<and>
   fst (rawHandler
         (single_action_tool ''run'' (throwing (JObj [(''message'', JStr ''boom'')]))
            \<lparr> after = Some (wrap ''a''), before = None, disabled = Some False \<rparr> NoStore)
         (request_for ''run'' (JNum 1))) =
     Send \<lparr> data = None, error = Some (JStr ''boom'') \<rparr> (Some 500) \<and>
   calls (snd (rawHandler
         (single_action_tool ''run'' (throwing (JObj [(''message'', JStr ''boom'')]))
            \<lparr> after = Some (wrap ''a''), before = None, disabled = Some False \<rparr> NoStore)
         (request_for ''run'' (JNum 1)))) = [ActionCall ''run'' (JNum 1)] \<and>
   fst (rawHandler
         (single_action_tool ''run'' echo
            \<lparr> after = Some (throwing (JStr ''late'')), before = None, disabled = None \<rparr>
            NoStore)
         (request_for ''run'' (JNum 1))) =
     Send \<lparr> data = None, error = Some JUndefined \<rparr> (Some 500)"
proof -
  let ?r = "request_for ''run'' (JNum 1)"
  let ?b = "\<lparr> action = Some ''run'', input = JNum 1 \<rparr>"
  let ?c1 = "\<lparr> after = None,
              before = Some (throwing (JObj [(''message'', JStr ''bad input'')])),
              disabled = None \<rparr>"
  let ?c2 = "\<lparr> after = Some (wrap ''a''), before = None, disabled = Some False \<rparr>"
  let ?c3 = "\<lparr> after = Some (throwing (JStr ''late'')), before = None, disabled = None \<rparr>"
  have 1: "fst (rawHandler (single_action_tool ''run'' echo ?c1 NoStore) ?r) =
     Send \<lparr> data = None, error = Some (JStr ''bad input'') \<rparr> (Some 500)"
    using C5_throw_caught [where request = ?r and b = ?b and a = "''run''"
        and this = "single_action_tool ''run'' echo ?c1 NoStore" and h = echo
        and m = "[''run'' \<mapsto> ?c1]" and cfg = ?c1
        and e = "JObj [(''message'', JStr ''bad input'')]"
        and bf = "throwing (JObj [(''message'', JStr ''bad input'')])"]
    by (simp add: single_action_tool_def constructor_def request_for_def throwing_def init_eq)
  have 2: "fst (rawHandler
         (single_action_tool ''run'' (throwing (JObj [(''message'', JStr ''boom'')])) ?c2 NoStore)
         ?r) =
     Send \<lparr> data = None, error = Some (JStr ''boom'') \<rparr> (Some 500) \<and>
   calls (snd (rawHandler
         (single_action_tool ''run'' (throwing (JObj [(''message'', JStr ''boom'')])) ?c2 NoStore)
         ?r)) = [ActionCall ''run'' (JNum 1)]"
    using C5_throw_caught [where request = ?r and b = ?b and a = "''run''"
        and this = "single_action_tool ''run''
                      (throwing (JObj [(''message'', JStr ''boom'')])) ?c2 NoStore"
        and h = "throwing (JObj [(''message'', JStr ''boom'')])"
        and m = "[''run'' \<mapsto> ?c2]" and cfg = ?c2
        and e = "JObj [(''message'', JStr ''boom'')]" and x = "JNum 1" and cs = "[]"]
    by (simp add: single_action_tool_def constructor_def request_for_def throwing_def init_eq
        call_before_def)
  have 3: "fst (rawHandler (single_action_tool ''run'' echo ?c3 NoStore) ?r) =
     Send \<lparr> data = None, error = Some JUndefined \<rparr> (Some 500)"
    using C5_throw_caught [where request = ?r and b = ?b and a = "''run''"
        and this = "single_action_tool ''run'' echo ?c3 NoStore" and h = echo
        and m = "[''run'' \<mapsto> ?c3]" and cfg = ?c3
        and e = "JStr ''late''" and x = "JNum 1" and cs = "[]" and y = "JNum 1"
        and af = "throwing (JStr ''late'')"]
    by (simp add: single_action_tool_def constructor_def request_for_def throwing_def init_eq
        call_before_def echo_def)
  from 1 2 3 show ?thesis by simp
qed

text \<open>
  C6 as stated says that over every sequence of dispatches the store factory is invoked
  at most once. A factory whose first call resolves to \<^verbatim>\<open>undefined\<close>, which its type
  allows, leaves the store falsy, and the next dispatch calls it again.
\<close>

theorem C6_factory_called_again_counterexample:
  "storeFnCalls
     (dispatches (single_action_tool ''echo'' echo plain (StoreFn late_store))
        [request_for ''echo'' JNull, request_for ''echo'' JNull]) = 2"
  by (simp add: rawHandler_def validate_defs init_eq run_action_def try_block_def call_before_def
      call_after_def request_for_def single_action_tool_def constructor_def plain_def
      echo_def late_store_def)

text \<open>
  C6, amended. The store is \<^verbatim>\<open>undefined\<close> at construction and the factory has not been
  called. A dispatch that passes the validation while the store is falsy calls the
  factory once and assigns what it resolves to. Once the store is truthy, no later
  dispatch calls the factory or changes the store, whatever the factory would return.
  So when the first call of the factory resolves to a truthy value, over every sequence
  of dispatches on a new instance the factory is called at most once and the store is
  either still unset or that value.
\<close>

theorem C6_store_set_once:
  "store (constructor c st am) = JUndefined \<and> storeFnCalls (constructor c st am) = 0 \<and>
   (validate this r = Inr x \<and> \<not> truthy (store this) \<and> getStoreFn this = Some g \<and>
    g (storeFnCalls this) = Fulfilled w \<longrightarrow>
      store (snd (rawHandler this r)) = w \<and>
      storeFnCalls (snd (rawHandler this r)) = Suc (storeFnCalls this)) \<and>
   (truthy (store this) \<longrightarrow>
      store (dispatches this rs) = store this \<and>
      storeFnCalls (dispatches this rs) = storeFnCalls this) \<and>
   (f 0 = Fulfilled v \<and> truthy v \<longrightarrow>
      storeFnCalls (dispatches (constructor c (StoreFn f) am) rs) \<le> 1 \<and>
      (store (dispatches (constructor c (StoreFn f) am) rs) = JUndefined \<or>
       store (dispatches (constructor c (StoreFn f) am) rs) = v))"
proof (intro conjI impI)
  show "store (constructor c st am) = JUndefined" by (simp add: constructor_def)
  show "storeFnCalls (constructor c st am) = 0" by (simp add: constructor_def)
next
  assume a: "validate this r = Inr x \<and> \<not> truthy (store this) \<and> getStoreFn this = Some g \<and>
    g (storeFnCalls this) = Fulfilled w"
  then show "store (snd (rawHandler this r)) = w"
    by (cases x) (auto simp add: rawHandler_def init_eq split: prod.splits)
  from a show "storeFnCalls (snd (rawHandler this r)) = Suc (storeFnCalls this)"
    by (cases x) (auto simp add: rawHandler_def init_eq split: prod.splits)
next
  assume t: "truthy (store this)"
  from dispatches_truthy_store [OF t] show "store (dispatches this rs) = store this" by simp
  from dispatches_truthy_store [OF t]
  show "storeFnCalls (dispatches this rs) = storeFnCalls this" by simp
next
  assume a: "f 0 = Fulfilled v \<and> truthy v"
  let ?t = "constructor c (StoreFn f) am"
  have g: "getStoreFn ?t = Some f" by (simp add: constructor_def)
  have s: "(storeFnCalls ?t = 0 \<and> store ?t = JUndefined) \<or> (storeFnCalls ?t = 1 \<and> store ?t = v)"
    by (simp add: constructor_def)
  from a have f0: "f 0 = Fulfilled v" and tv: "truthy v" by simp_all
  note inv = dispatches_first_store [OF g f0 tv s, of rs]
  from inv show "storeFnCalls (dispatches ?t rs) \<le> 1" by auto
  from inv show "store (dispatches ?t rs) = JUndefined \<or> store (dispatches ?t rs) = v" by auto
qed

theorem C6_store_set_once_witness:
  "storeFnCalls
     (dispatches (single_action_tool ''echo'' echo plain (StoreFn numbered_store))
        [request_for ''echo'' JNull, request_for ''nope'' JNull, request_for ''echo'' JNull])
     \<le> 1 \<and>
   store (snd (rawHandler (single_action_tool ''echo'' echo plain (StoreFn numbered_store))
                 (request_for ''echo'' JNull))) = JObj [(''id'', JNum 0)] \<and>
   store (dispatches
            ((single_action_tool ''echo'' echo plain (StoreFn numbered_store))
               \<lparr> store := JStr ''kept'' \<rparr>)
            [request_for ''echo'' JNull, request_for ''echo'' JNull]) = JStr ''kept''"
proof -
  let ?t = "single_action_tool ''echo'' echo plain (StoreFn numbered_store)"
  let ?r = "request_for ''echo'' JNull"
  have 1: "storeFnCalls (dispatches ?t [?r, request_for ''nope'' JNull, ?r]) \<le> 1"
    using C6_store_set_once [where f = numbered_store and v = "JObj [(''id'', JNum 0)]"
        and c = "\<lparr> actions = Some [''echo'' \<mapsto> plain] \<rparr>" and am = "Some [''echo'' \<mapsto> echo]"
        and rs = "[?r, request_for ''nope'' JNull, ?r]"]
    by (simp add: single_action_tool_def numbered_store_def)
  have v: "validate ?t ?r = Inr (''echo'', echo, plain, JNull)"
    by (simp add: validate_defs single_action_tool_def constructor_def request_for_def plain_def)
  have 2: "store (snd (rawHandler ?t ?r)) = JObj [(''id'', JNum 0)]"
    using C6_store_set_once [where this = ?t and r = ?r and g = numbered_store
        and x = "(''echo'', echo, plain, JNull)" and w = "JObj [(''id'', JNum 0)]"] v
    by (simp add: single_action_tool_def constructor_def numbered_store_def)
  have 3: "store (dispatches (?t\<lparr> store := JStr ''kept'' \<rparr>) [?r, ?r]) = JStr ''kept''"
    using C6_store_set_once [where this = "?t\<lparr> store := JStr ''kept'' \<rparr>" and rs = "[?r, ?r]"]
    by simp
  from 1 2 3 show ?thesis by simp
qed

text \<open>
  C7 says that dispatches which run concurrently on a new instance call the store
  factory at most once in total and all observe the same store. The code does not
  ensure it: when two dispatches of an enabled action are started before either
  resumes, each finds the store unset and calls the factory, so the factory is called
  twice, and the two dispatches resume with different stores.
\<close>

theorem C7_overlapping_dispatches:
  "storeFnCalls
     (snd (overlapping (single_action_tool ''echo'' echo plain (StoreFn numbered_store))
             [request_for ''echo'' JNull, request_for ''echo'' JNull])) = 2 \<and>
   map snd
     (fst (overlapping (single_action_tool ''echo'' echo plain (StoreFn numbered_store))
             [request_for ''echo'' JNull, request_for ''echo'' JNull])) =
     [JObj [(''id'', JNum 0)], JObj [(''id'', JNum 1)]]"
  by (simp add: overlapping_def rawHandler_start_def validate_defs init_begin_def run_action_def
      try_block_def call_before_def call_after_def request_for_def single_action_tool_def
      constructor_def plain_def echo_def numbered_store_def)

text \<open>
  C8 as stated says that every outcome is an envelope with either data or an error
  string. When the handler throws a string, the \<^verbatim>\<open>error\<close> field holds \<^verbatim>\<open>undefined\<close>;
  when a hook throws \<^verbatim>\<open>undefined\<close>, the dispatch rejects and sends no envelope.
\<close>

theorem C8_envelope_counterexample:
  "fst (rawHandler (single_action_tool ''echo'' (throwing (JStr ''boom'')) plain NoStore)
         (request_for ''echo'' JNull)) =
     Send \<lparr> data = None, error = Some JUndefined \<rparr> (Some 500) \<and>
   fst (rawHandler
         (single_action_tool ''echo'' echo
            \<lparr> after = None, before = Some (throwing JUndefined), disabled = None \<rparr> NoStore)
         (request_for ''echo'' JNull)) = Reject TypeError"
  by (simp add: rawHandler_def validate_defs init_eq run_action_def try_block_def call_before_def
      catch_block_def request_for_def single_action_tool_def constructor_def plain_def
      throwing_def)

text \<open>
  C8, amended. Every envelope a dispatch sends contains exactly one of the fields
  \<^verbatim>\<open>data\<close> and \<^verbatim>\<open>error\<close>: a success (no status) has no error, a status-400 envelope
  holds an error string and a status-500 envelope has no data. The \<^verbatim>\<open>catch\<close> block
  sends an error string whenever the thrown value's \<^verbatim>\<open>message\<close> field is a string.
\<close>

theorem C8_envelope_shape:
  "(fst (rawHandler this request) = Send env st \<longrightarrow>
      (data env = None) \<noteq> (error env = None) \<and>
      (st = None \<or> st = Some 400 \<or> st = Some 500) \<and>
      (st = None \<longrightarrow> error env = None) \<and>
      (st = Some 400 \<longrightarrow> (\<exists>s. error env = Some (JStr s))) \<and>
      (st = Some 500 \<longrightarrow> data env = None)) \<and>
   (get_message e = Some (JStr s) \<longrightarrow>
      catch_block e = Send \<lparr> data = None, error = Some (JStr s) \<rparr> (Some 500))"
proof (intro conjI impI)
  assume a: "fst (rawHandler this request) = Send env st"
  have cases: "(st = None \<and> data env \<noteq> None \<and> error env = None) \<or>
               (st = Some 400 \<and> data env = None \<and> (\<exists>s. error env = Some (JStr s))) \<or>
               (st = Some 500 \<and> data env = None \<and> error env \<noteq> None)"
    using a
    by (auto simp add: rawHandler_def run_action_def catch_block_def send_error_def
        split: sum.splits prod.splits outcome.splits option.splits dest!: validate_Inl)
  from cases show "(data env = None) \<noteq> (error env = None)" by auto
  from cases show "st = None \<or> st = Some 400 \<or> st = Some 500" by auto
  { assume "st = None" with cases show "error env = None" by auto }
  { assume "st = Some 400" with cases show "\<exists>s. error env = Some (JStr s)" by auto }
  { assume "st = Some 500" with cases show "data env = None" by auto }
next
  assume "get_message e = Some (JStr s)"
  then show "catch_block e = Send \<lparr> data = None, error = Some (JStr s) \<rparr> (Some 500)"
    by (simp add: catch_block_def)
qed

theorem C8_envelope_shape_witness:
  "fst (rawHandler (single_action_tool ''echo'' echo plain NoStore)
         (request_for ''echo'' (JNum 42))) =
     Send \<lparr> data = Some (JNum 42), error = None \<rparr> None \<and>
   (data \<lparr> data = Some (JNum 42), error = None \<rparr> = None) \<noteq>
   (error \<lparr> data = Some (JNum 42), error = None \<rparr> = None) \<and>
   catch_block (JObj [(''message'', JStr ''boom'')]) =
     Send \<lparr> data = None, error = Some (JStr ''boom'') \<rparr> (Some 500)"
proof -
  let ?t = "single_action_tool ''echo'' echo plain NoStore"
  let ?r = "request_for ''echo'' (JNum 42)"
  have f: "fst (rawHandler ?t ?r) = Send \<lparr> data = Some (JNum 42), error = None \<rparr> None"
    by (simp add: rawHandler_def validate_defs init_eq run_action_def try_block_def
        call_before_def call_after_def request_for_def single_action_tool_def constructor_def
        plain_def echo_def)
  have 1: "(data \<lparr> data = Some (JNum 42), error = None \<rparr> = None) \<noteq>
           (error \<lparr> data = Some (JNum 42), error = None \<rparr> = None)"
    by (rule conjunct1 [OF C8_envelope_shape [THEN conjunct1, THEN mp, OF f]])
  have 2: "catch_block (JObj [(''message'', JStr ''boom'')]) =
     Send \<lparr> data = None, error = Some (JStr ''boom'') \<rparr> (Some 500)"
    by (rule C8_envelope_shape [THEN conjunct2, THEN mp]) simp
  from f 1 2 show ?thesis by simp
qed

end
